theory Spec2Isabelle
  imports Complex_Main "HOL-Library.Word" "HOL-Library.Multiset"
begin

section \<open>JavaScript values used by the route and the dashboard\<close>

text \<open>
  A JavaScript string is a sequence of 16-bit code units. String literals of the source
  are ASCII and are written through \<open>js\<close>.
\<close>

type_synonym jstring = "16 word list"

definition js :: "string \<Rightarrow> jstring" where
  "js s = map (\<lambda>c. of_char c) s"

text \<open>
  The values \<open>await request.json()\<close> can produce, together with \<open>undefined\<close>, which is
  what reading an absent property gives. A number carries the value of the parsed double;
  the route only looks at whether it is zero. An object is the list of its own properties
  after parsing (keys distinct).
\<close>

datatype jsvalue =
    JUndefined
  | JNull
  | JBool bool
  | JNum real
  | JStr jstring
  | JArr "jsvalue list"
  | JObj "(jstring \<times> jsvalue) list"

text \<open>ToBoolean: what \<open>!v\<close> negates.\<close>

fun truthy :: "jsvalue \<Rightarrow> bool" where
  "truthy JUndefined = False"
| "truthy JNull = False"
| "truthy (JBool b) = b"
| "truthy (JNum x) = (x \<noteq> 0)"
| "truthy (JStr s) = (s \<noteq> [])"
| "truthy (JArr _) = True"
| "truthy (JObj _) = True"

text \<open>
  \<open>const { category, message, subject } = body ?? {}\<close>: a property read of the parsed body.
  \<open>null\<close> is replaced by the empty object; a primitive or an array has none of the three
  properties, so the read gives \<open>undefined\<close>.
\<close>

fun get_prop :: "jsvalue \<Rightarrow> jstring \<Rightarrow> jsvalue" where
  "get_prop (JObj ps) k = (case map_of ps k of None \<Rightarrow> JUndefined | Some v \<Rightarrow> v)"
| "get_prop _ k = JUndefined"

text \<open>
  \<open>String.prototype.trim\<close> strips WhiteSpace and LineTerminator code units from both ends.
\<close>

definition is_ws :: "16 word \<Rightarrow> bool" where
  "is_ws c \<longleftrightarrow>
     c = 0x0009 \<or> c = 0x000A \<or> c = 0x000B \<or> c = 0x000C \<or> c = 0x000D \<or> c = 0x0020 \<or>
     c = 0x00A0 \<or> c = 0x1680 \<or> (0x2000 \<le> c \<and> c \<le> 0x200A) \<or> c = 0x2028 \<or> c = 0x2029 \<or>
     c = 0x202F \<or> c = 0x205F \<or> c = 0x3000 \<or> c = 0xFEFF"

definition trim :: "jstring \<Rightarrow> jstring" where
  "trim s = rev (dropWhile is_ws (rev (dropWhile is_ws s)))"

text \<open>\<open>haystack.includes(needle)\<close> on strings: the needle occurs at some position.\<close>

fun starts_with :: "jstring \<Rightarrow> jstring \<Rightarrow> bool" where
  "starts_with s [] = True"
| "starts_with [] (c # cs) = False"
| "starts_with (d # ds) (c # cs) = (d = c \<and> starts_with ds cs)"

fun includes_str :: "jstring \<Rightarrow> jstring \<Rightarrow> bool" where
  "includes_str [] needle = (needle = [])"
| "includes_str (d # ds) needle = (starts_with (d # ds) needle \<or> includes_str ds needle)"

text \<open>
  A thrown value, as the \<open>catch\<close> clauses read it: \<open>error?.message\<close> when it is a string.
\<close>

datatype js_error = JsError (err_message: "jstring option")

section \<open>The table \<open>creator_feedback\<close> (migration \<open>add_creator_feedback.sql\<close>)\<close>

text \<open>
  The columns of the table. \<open>NOT NULL\<close> columns carry a value, \<open>user_id\<close> and
  \<open>subject\<close> may be \<open>NULL\<close>. \<open>id\<close> and \<open>created_at\<close> are filled by their defaults.
\<close>

record creator_feedback_row =
  row_id :: jstring
  row_creator_id :: jstring
  row_company_id :: jstring
  row_user_id :: "jstring option"
  row_category :: jstring
  row_subject :: "jstring option"
  row_message :: jstring
  row_created_at :: int

text \<open>The object handed to \<open>.insert(...)\<close>.\<close>

record insert_values =
  ins_creator_id :: jstring
  ins_company_id :: jstring
  ins_user_id :: "jstring option"
  ins_category :: jstring
  ins_subject :: "jstring option"
  ins_message :: jstring

text \<open>
  The storage service: the rows of \<open>creator_feedback\<close>, the ids present in \<open>creators\<close>
  (the foreign key), the values the column defaults \<open>gen_random_uuid()\<close> and \<open>NOW()\<close>
  produce for the next insert, and \<open>fault\<close>: the error, if any, that the service raises for
  an insert for a reason the migration does not show (connection, timeout, a value the
  database cannot take); it is reported as the \<open>error\<close> of the call.
\<close>

record storage =
  feedback_rows :: "creator_feedback_row list"
  creators :: "jstring list"
  next_uuid :: jstring
  now :: int
  fault :: "insert_values \<Rightarrow> jstring option"

definition category_check :: "jstring list" where
  "category_check = [js ''bug'', js ''feedback'', js ''idea'', js ''other'']"

text \<open>
  A \<open>TEXT\<close> value cannot contain the code unit U+0000: the database refuses it. The same
  holds for the \<open>UUID\<close> of the creator.
\<close>

definition text_value :: "jstring \<Rightarrow> bool" where
  "text_value s \<longleftrightarrow> 0 \<notin> set s"

definition text_columns :: "insert_values \<Rightarrow> bool" where
  "text_columns v \<longleftrightarrow>
     text_value (ins_creator_id v) \<and>
     text_value (ins_company_id v) \<and>
     (case ins_user_id v of None \<Rightarrow> True | Some u \<Rightarrow> text_value u) \<and>
     text_value (ins_category v) \<and>
     (case ins_subject v of None \<Rightarrow> True | Some t \<Rightarrow> text_value t) \<and>
     text_value (ins_message v)"

text \<open>
  \<open>supabaseAdmin.from('creator_feedback').insert(v).select().single()\<close>: the result is
  \<open>{ data, error }\<close>, here \<open>Inl error\<close> or \<open>Inr (data, storage after the insert)\<close>. The row
  is refused when the service raises an error, when a value contains U+0000, or when the foreign
  key or the \<open>CHECK\<close> on \<open>category\<close> fails; otherwise it is appended and returned as stored.
  The insert policy is \<open>WITH CHECK (true)\<close>.
\<close>

definition db_insert :: "storage \<Rightarrow> insert_values \<Rightarrow> jstring + creator_feedback_row \<times> storage" where
  "db_insert db v =
     (case fault db v of
        Some e \<Rightarrow> Inl e
      | None \<Rightarrow>
          if \<not> text_columns v then Inl (js ''invalid byte sequence for encoding'')
          else if ins_creator_id v \<notin> set (creators db) then Inl (js ''foreign key violation'')
          else if ins_category v \<notin> set category_check then Inl (js ''check violation'')
          else
            let row = \<lparr> row_id = next_uuid db,
                        row_creator_id = ins_creator_id v,
                        row_company_id = ins_company_id v,
                        row_user_id = ins_user_id v,
                        row_category = ins_category v,
                        row_subject = ins_subject v,
                        row_message = ins_message v,
                        row_created_at = now db \<rparr>
            in Inr (row, db\<lparr> feedback_rows := feedback_rows db @ [row] \<rparr>))"

section \<open>The route \<open>POST /api/creator-feedback\<close>\<close>

text \<open>
  What \<open>requireCreator()\<close> resolves to. \<open>companyId\<close> and \<open>userId\<close> may be absent.
\<close>

record auth =
  companyId :: "jstring option"
  userId :: "jstring option"

text \<open>
  The collaborators of the route, each given by what its call does in this request:
  \<open>requireCreator()\<close> and \<open>request.json()\<close> throw (\<open>Inl\<close>) or return;
  \<open>getCreatorForCompany(companyId)\<close> throws or returns the creator's id or \<open>null\<close>.
\<close>

record request_env =
  requireCreator :: "js_error + auth"
  request_json :: "js_error + jsvalue"
  getCreatorForCompany :: "jstring \<Rightarrow> js_error + jstring option"
  db :: storage

datatype response_body = ErrorBody (error_text: string) | DataBody (body_data: creator_feedback_row)

record http_response =
  status :: nat
  body :: response_body

text \<open>The outcome of a request: the response, the lines written with \<open>console.error\<close>, the storage.\<close>

record post_result =
  response :: http_response
  console :: "string list"
  db_after :: storage

definition ALLOWED_CATEGORIES :: "jstring list" where
  "ALLOWED_CATEGORIES = [js ''bug'', js ''feedback'', js ''idea'', js ''other'']"

text \<open>
  \<open>ALLOWED_CATEGORIES.includes(category)\<close> compares with SameValueZero: only a string equal
  to one of the four entries is found.
\<close>

fun allowed_includes :: "jsvalue \<Rightarrow> bool" where
  "allowed_includes (JStr s) = (s \<in> set ALLOWED_CATEGORIES)"
| "allowed_includes _ = False"

text \<open>\<open>!category || !ALLOWED_CATEGORIES.includes(category)\<close>\<close>

definition invalid_category :: "jsvalue \<Rightarrow> bool" where
  "invalid_category category \<longleftrightarrow> \<not> truthy category \<or> \<not> allowed_includes category"

text \<open>\<open>!message || typeof message !== 'string' || !message.trim()\<close>\<close>

definition message_required :: "jsvalue \<Rightarrow> bool" where
  "message_required message \<longleftrightarrow>
     \<not> truthy message \<or>
     (case message of JStr m \<Rightarrow> \<not> truthy (JStr (trim m)) | _ \<Rightarrow> True)"

text \<open>
  \<open>subject?.trim() || null\<close>: \<open>undefined\<close> and \<open>null\<close> short-circuit to \<open>undefined\<close>, hence
  \<open>null\<close>; a string is trimmed and an empty result becomes \<open>null\<close>; any other value has no
  \<open>trim\<close> method and the call throws a TypeError.
\<close>

fun subject_or_null :: "jsvalue \<Rightarrow> js_error + jstring option" where
  "subject_or_null JUndefined = Inr None"
| "subject_or_null JNull = Inr None"
| "subject_or_null (JStr s) = Inr (if trim s = [] then None else Some (trim s))"
| "subject_or_null _ = Inl (JsError (Some (js ''subject.trim is not a function'')))"

definition respond :: "nat \<Rightarrow> response_body \<Rightarrow> string list \<Rightarrow> storage \<Rightarrow> post_result" where
  "respond st b logs d = \<lparr> response = \<lparr> status = st, body = b \<rparr>, console = logs, db_after = d \<rparr>"

text \<open>The body of the \<open>try\<close> block: \<open>Inl\<close> is a throw, caught below.\<close>

definition POST_try :: "request_env \<Rightarrow> js_error + post_result" where
  "POST_try env =
     (case requireCreator env of
        Inl e \<Rightarrow> Inl e
      | Inr a \<Rightarrow>
          if \<not> truthy (case companyId a of None \<Rightarrow> JUndefined | Some c \<Rightarrow> JStr c)
          then Inr (respond 500 (ErrorBody ''Company ID missing'') [] (db env))
          else
            (case request_json env of
               Inl e \<Rightarrow> Inl e
             | Inr b \<Rightarrow>
                 let category = get_prop b (js ''category'');
                     message = get_prop b (js ''message'');
                     subject = get_prop b (js ''subject'')
                 in
                   if invalid_category category
                   then Inr (respond 400 (ErrorBody ''Invalid category'') [] (db env))
                   else if message_required message
                   then Inr (respond 400 (ErrorBody ''Message is required'') [] (db env))
                   else
                     (case getCreatorForCompany env (the (companyId a)) of
                        Inl e \<Rightarrow> Inl e
                      | Inr None \<Rightarrow>
                          Inr (respond 404 (ErrorBody ''Creator not found for company'') [] (db env))
                      | Inr (Some creator_id) \<Rightarrow>
                          (case subject_or_null subject of
                             Inl e \<Rightarrow> Inl e
                           | Inr subj \<Rightarrow>
                               (case db_insert (db env)
                                       \<lparr> ins_creator_id = creator_id,
                                         ins_company_id = the (companyId a),
                                         ins_user_id = userId a,
                                         ins_category = (case category of JStr c \<Rightarrow> c | _ \<Rightarrow> []),
                                         ins_subject = subj,
                                         ins_message = (case message of JStr m \<Rightarrow> trim m | _ \<Rightarrow> []) \<rparr> of
                                  Inl err \<Rightarrow>
                                    Inr (respond 500 (ErrorBody ''Failed to submit feedback'')
                                           [''Error inserting creator feedback:''] (db env))
                                | Inr (data, db') \<Rightarrow>
                                    Inr (respond 201 (DataBody data) [] db'))))))"

text \<open>
  The route: the \<open>catch\<close> clause answers 401 when the thrown value's message is a string
  that includes \<open>Unauthorized\<close>, and 500 otherwise.
\<close>

definition POST :: "request_env \<Rightarrow> post_result" where
  "POST env =
     (case POST_try env of
        Inr r \<Rightarrow> r
      | Inl error \<Rightarrow>
          let message = (case err_message error of Some m \<Rightarrow> m | None \<Rightarrow> [])
          in if includes_str message (js ''Unauthorized'')
             then respond 401 (ErrorBody ''Unauthorized'')
                    [''Error handling POST /api/creator-feedback:''] (db env)
             else respond 500 (ErrorBody ''Internal server error'')
                    [''Error handling POST /api/creator-feedback:''] (db env))"

section \<open>The dashboard (\<open>DashboardContent.tsx\<close>)\<close>

subsection \<open>Messages\<close>

record reply_row =
  reply_id :: jstring
  reply_text :: jstring
  is_public :: bool

text \<open>
  \<open>MessageWithReactions\<close>. \<open>created_at\<close> is the time value that
  \<open>new Date(m.created_at).getTime()\<close> gives for the stored timestamp, in milliseconds
  (a message carries a creation timestamp, so this is a number);
  \<open>reply\<close> and \<open>reaction_count\<close> are optional properties.
\<close>

record message =
  message_id :: jstring
  message_text :: jstring
  tag :: jstring
  reviewed :: bool
  created_at :: int
  reply :: "reply_row list option"
  reaction_count :: "nat option"

text \<open>\<open>m.reaction_count || 0\<close>\<close>

definition reaction_count_or_0 :: "message \<Rightarrow> int" where
  "reaction_count_or_0 m = (case reaction_count m of None \<Rightarrow> 0 | Some n \<Rightarrow> int n)"

subsection \<open>Array operations\<close>

text \<open>
  \<open>Array.prototype.sort(compareFn)\<close> is a stable sort: elements are ordered so that
  \<open>compareFn a b \<le> 0\<close> for \<open>a\<close> before \<open>b\<close>, and elements that compare equal keep their order.
  For a comparator that is a total preorder this result is unique; it is computed here by
  insertion from the right.
\<close>

fun insert_by :: "('a \<Rightarrow> 'a \<Rightarrow> int) \<Rightarrow> 'a \<Rightarrow> 'a list \<Rightarrow> 'a list" where
  "insert_by cmp x [] = [x]"
| "insert_by cmp x (y # ys) = (if cmp x y \<le> 0 then x # y # ys else y # insert_by cmp x ys)"

fun array_sort :: "('a \<Rightarrow> 'a \<Rightarrow> int) \<Rightarrow> 'a list \<Rightarrow> 'a list" where
  "array_sort cmp [] = []"
| "array_sort cmp (x # xs) = insert_by cmp x (array_sort cmp xs)"

text \<open>
  \<open>Array.prototype.slice(start, end)\<close>: a negative index counts from the end, both indices
  are clamped to the array, and an empty array results when \<open>end\<close> is not after \<open>start\<close>.
\<close>

definition array_slice :: "'a list \<Rightarrow> int \<Rightarrow> int \<Rightarrow> 'a list" where
  "array_slice xs start end =
     (let len = int (length xs);
          k = (if start < 0 then max (len + start) 0 else min start len);
          final = (if end < 0 then max (len + end) 0 else min end len)
      in take (nat (final - k)) (drop (nat k) xs))"

subsection \<open>Requests\<close>

text \<open>
  A settled promise, and the part of a \<open>fetch\<close> response the component reads: \<open>response.ok\<close>
  and what \<open>response.json()\<close> settles to.
\<close>

datatype 'a promise = Rejected js_error | Fulfilled 'a

record 'a fetch_response =
  ok :: bool
  json :: "'a promise"

text \<open>
  What each request of the component settles to when it is issued. The payload of the feed
  is its \<open>data\<close> property (\<open>None\<close> when absent or \<open>null\<close>); the payload of the reactions endpoint
  is \<open>data?.length\<close>; the payload of the creator-feedback endpoint is its \<open>error\<close> property.
\<close>

record network =
  get_feedback_filtered :: "message list option fetch_response promise"
  get_feedback_all :: "message list option fetch_response promise"
  get_reactions :: "jstring \<Rightarrow> nat option fetch_response promise"
  patch_feedback :: "jstring \<Rightarrow> bool \<Rightarrow> unit fetch_response promise"
  delete_feedback :: "jstring \<Rightarrow> unit fetch_response promise"
  post_replies :: "jstring \<Rightarrow> jstring \<Rightarrow> bool \<Rightarrow> unit fetch_response promise"
  patch_replies :: "jstring \<Rightarrow> bool \<Rightarrow> unit fetch_response promise"
  post_creator_feedback :: "jstring \<Rightarrow> jstring option \<Rightarrow> jstring \<Rightarrow> jstring option fetch_response promise"

subsection \<open>Component state and effects\<close>

datatype TabType = Overview | Inbox | Reviewed

record dashboard =
  messages :: "message list"
  allMessages :: "message list"
  isLoading :: bool
  activeTab :: TabType
  currentPage :: int
  supportCategory :: jstring
  supportSubject :: jstring
  supportMessage :: jstring
  supportSubmitting :: bool
  supportSuccess :: "string option"
  supportError :: "jstring option"

text \<open>What the user can observe besides the rendered state: \<open>console.error\<close> and \<open>alert\<close>.\<close>

datatype effect = ConsoleError string | Alert string

text \<open>The state of the first render.\<close>

definition initial_dashboard :: dashboard where
  "initial_dashboard =
     \<lparr> messages = [], allMessages = [], isLoading = True, activeTab = Overview, currentPage = 1,
       supportCategory = js ''bug'', supportSubject = [], supportMessage = [],
       supportSubmitting = False, supportSuccess = None, supportError = None \<rparr>"

subsection \<open>\<open>fetchMessages\<close>\<close>

text \<open>The comparator of the sort: reaction count descending, then \<open>created_at\<close> descending.\<close>

definition compare_messages :: "message \<Rightarrow> message \<Rightarrow> int" where
  "compare_messages a b =
     (let reactionDiff = reaction_count_or_0 b - reaction_count_or_0 a
      in if reactionDiff \<noteq> 0 then reactionDiff else created_at b - created_at a)"

definition sortedMessages :: "message list \<Rightarrow> message list" where
  "sortedMessages messagesWithReactions = array_sort compare_messages messagesWithReactions"

text \<open>
  The first request: \<open>if (!response.ok) throw ...\<close>, then \<open>data || []\<close>. \<open>Inl\<close> is a throw.
\<close>

definition fetch_filtered :: "network \<Rightarrow> js_error + message list" where
  "fetch_filtered net =
     (case get_feedback_filtered net of
        Rejected e \<Rightarrow> Inl e
      | Fulfilled resp \<Rightarrow>
          if \<not> ok resp then Inl (JsError (Some (js ''Failed to fetch messages'')))
          else (case json resp of
                  Rejected e \<Rightarrow> Inl e
                | Fulfilled d \<Rightarrow> Inr (case d of None \<Rightarrow> [] | Some ms \<Rightarrow> ms)))"

text \<open>
  The callback of the \<open>map\<close>: the reaction count of one message, 0 when the response is not ok
  or carries no data.
\<close>

definition with_reaction_count :: "network \<Rightarrow> message \<Rightarrow> js_error + message" where
  "with_reaction_count net m =
     (case get_reactions net (message_id m) of
        Rejected e \<Rightarrow> Inl e
      | Fulfilled reactionResponse \<Rightarrow>
          if ok reactionResponse
          then (case json reactionResponse of
                  Rejected e \<Rightarrow> Inl e
                | Fulfilled d \<Rightarrow>
                    Inr (m\<lparr> reaction_count := Some (case d of None \<Rightarrow> 0 | Some n \<Rightarrow> n) \<rparr>))
          else Inr (m\<lparr> reaction_count := Some 0 \<rparr>))"

text \<open>\<open>Promise.all\<close>: the results in order, or a rejection when one of the promises rejects.\<close>

fun promise_all :: "(js_error + 'a) list \<Rightarrow> js_error + 'a list" where
  "promise_all [] = Inr []"
| "promise_all (Inl e # ps) = Inl e"
| "promise_all (Inr x # ps) = (case promise_all ps of Inl e \<Rightarrow> Inl e | Inr xs \<Rightarrow> Inr (x # xs))"

text \<open>
  The second request: \<open>Inr None\<close> when the response is not ok (the block is skipped),
  \<open>Inr (Some sorted)\<close> for the list handed to \<open>setAllMessages\<close>.
\<close>

definition fetch_all :: "network \<Rightarrow> js_error + message list option" where
  "fetch_all net =
     (case get_feedback_all net of
        Rejected e \<Rightarrow> Inl e
      | Fulfilled allMessagesResponse \<Rightarrow>
          if ok allMessagesResponse
          then (case json allMessagesResponse of
                  Rejected e \<Rightarrow> Inl e
                | Fulfilled allMessagesData \<Rightarrow>
                    (case promise_all (map (with_reaction_count net)
                                         (case allMessagesData of None \<Rightarrow> [] | Some ms \<Rightarrow> ms)) of
                       Inl e \<Rightarrow> Inl e
                     | Inr messagesWithReactions \<Rightarrow> Inr (Some (sortedMessages messagesWithReactions))))
          else Inr None)"

text \<open>
  \<open>fetchMessages\<close>: the state when the returned promise settles, and the effects. The
  \<open>catch\<close> clause only logs; \<open>finally\<close> clears \<open>isLoading\<close>.
\<close>

definition fetchMessages :: "network \<Rightarrow> dashboard \<Rightarrow> dashboard \<times> effect list" where
  "fetchMessages net s =
     (case fetch_filtered net of
        Inl error \<Rightarrow> (s\<lparr> isLoading := False \<rparr>, [ConsoleError ''Error fetching messages:''])
      | Inr d \<Rightarrow>
          (case fetch_all net of
             Inl error \<Rightarrow>
               (s\<lparr> messages := d, isLoading := False \<rparr>, [ConsoleError ''Error fetching messages:''])
           | Inr None \<Rightarrow> (s\<lparr> messages := d, isLoading := False \<rparr>, [])
           | Inr (Some ranked) \<Rightarrow>
               (s\<lparr> messages := d, allMessages := ranked, isLoading := False \<rparr>, [])))"

subsection \<open>Handlers\<close>







subsection \<open>Derived lists\<close>

text \<open>\<open>!m.reply || m.reply.length === 0\<close> and \<open>m.reply && m.reply.length > 0\<close>\<close>

definition no_reply :: "message \<Rightarrow> bool" where
  "no_reply m \<longleftrightarrow> (case reply m of None \<Rightarrow> True | Some rs \<Rightarrow> length rs = 0)"

definition has_reply :: "message \<Rightarrow> bool" where
  "has_reply m \<longleftrightarrow> (case reply m of None \<Rightarrow> False | Some rs \<Rightarrow> length rs > 0)"


definition inboxMessages :: "dashboard \<Rightarrow> message list" where
  "inboxMessages s = filter (\<lambda>m. no_reply m) (messages s)"

definition reviewedMessages :: "dashboard \<Rightarrow> message list" where
  "reviewedMessages s = filter (\<lambda>m. has_reply m \<or> reviewed m) (messages s)"

definition getFilteredMessages :: "dashboard \<Rightarrow> message list" where
  "getFilteredMessages s =
     (if activeTab s = Inbox then inboxMessages s
      else if activeTab s = Reviewed then reviewedMessages s
      else messages s)"

definition MESSAGES_PER_PAGE :: int where
  "MESSAGES_PER_PAGE = 10"

definition totalPages :: "dashboard \<Rightarrow> int" where
  "totalPages s = \<lceil>real (length (getFilteredMessages s)) / real_of_int MESSAGES_PER_PAGE\<rceil>"

definition paginatedMessages :: "dashboard \<Rightarrow> message list" where
  "paginatedMessages s =
     array_slice (getFilteredMessages s)
       ((currentPage s - 1) * MESSAGES_PER_PAGE) (currentPage s * MESSAGES_PER_PAGE)"

text \<open>
  The hot-posts section lies inside the block rendered under \<open>activeTab === 'overview'\<close>; there
  it is rendered when the filter finds a message. \<open>hot_posts\<close> are the cards on the screen: those
  of the section when it is rendered, none otherwise.
\<close>

definition hot_posts_shown :: "dashboard \<Rightarrow> bool" where
  "hot_posts_shown s \<longleftrightarrow>
     activeTab s = Overview \<and>
     length (filter (\<lambda>m. reaction_count_or_0 m \<ge> 5) (allMessages s)) > 0"

definition hot_posts :: "dashboard \<Rightarrow> message list" where
  "hot_posts s =
     (if hot_posts_shown s
      then array_slice (filter (\<lambda>m. reaction_count_or_0 m \<ge> 5) (allMessages s)) 0 4
      else [])"

section \<open>Predicates used in the statements\<close>

text \<open>A string made of whitespace only (the empty string included).\<close>

definition whitespace_only :: "jstring \<Rightarrow> bool" where
  "whitespace_only s \<longleftrightarrow> (\<forall>c \<in> set s. is_ws c)"

text \<open>A string with no whitespace at its beginning and none at its end.\<close>

definition no_outer_ws :: "jstring \<Rightarrow> bool" where
  "no_outer_ws s \<longleftrightarrow> (s \<noteq> [] \<longrightarrow> \<not> is_ws (hd s) \<and> \<not> is_ws (last s))"

text \<open>The row that an accepted insert stores, with the defaults filled in.\<close>

definition stored_row :: "storage \<Rightarrow> insert_values \<Rightarrow> creator_feedback_row" where
  "stored_row d v = \<lparr> row_id = next_uuid d, row_creator_id = ins_creator_id v,
      row_company_id = ins_company_id v, row_user_id = ins_user_id v,
      row_category = ins_category v, row_subject = ins_subject v,
      row_message = ins_message v, row_created_at = now d \<rparr>"

text \<open>
  The order of the hot-post ranking: more reactions first, then the more recent \<open>created_at\<close>.
  Two messages are fully tied when they agree on both.
\<close>

definition ranks_before :: "message \<Rightarrow> message \<Rightarrow> bool" where
  "ranks_before a b \<longleftrightarrow>
     reaction_count_or_0 b < reaction_count_or_0 a \<or>
     (reaction_count_or_0 a = reaction_count_or_0 b \<and> created_at b \<le> created_at a)"

definition fully_tied :: "message \<Rightarrow> message \<Rightarrow> bool" where
  "fully_tied a b \<longleftrightarrow>
     reaction_count_or_0 a = reaction_count_or_0 b \<and> created_at a = created_at b"






section \<open>Sample requests and states\<close>

text \<open>Requests to the route: a storage with one creator, an authenticated caller, a body.\<close>

fun no_fault :: "insert_values \<Rightarrow> jstring option" where
  "no_fault v = None"

definition example_db :: storage where
  "example_db = \<lparr> feedback_rows = [], creators = [js ''creator-1''], next_uuid = js ''uuid-1'',
                    now = 1700000000000, fault = no_fault \<rparr>"

definition example_auth :: auth where
  "example_auth = \<lparr> companyId = Some (js ''biz_1''), userId = Some (js ''user_1'') \<rparr>"

fun example_lookup :: "jstring \<Rightarrow> js_error + jstring option" where
  "example_lookup c = Inr (Some (js ''creator-1''))"

definition example_env :: "(js_error + auth) \<Rightarrow> jsvalue \<Rightarrow> request_env" where
  "example_env a b = \<lparr> requireCreator = a, request_json = Inr b,
                        getCreatorForCompany = example_lookup, db = example_db \<rparr>"

definition feedback_body :: "string \<Rightarrow> string \<Rightarrow> jsvalue" where
  "feedback_body c m = JObj [(js ''category'', JStr (js c)), (js ''message'', JStr (js m))]"

definition example_row :: creator_feedback_row where
  "example_row =
     \<lparr> row_id = js ''uuid-1'', row_creator_id = js ''creator-1'', row_company_id = js ''biz_1'',
       row_user_id = Some (js ''user_1''), row_category = js ''bug'', row_subject = None,
       row_message = js ''hi'', row_created_at = 1700000000000 \<rparr>"

definition example_body_subject :: jsvalue where
  "example_body_subject =
     JObj [(js ''category'', JStr (js ''bug'')), (js ''subject'', JStr (js ''  '')),
           (js ''message'', JStr (js '' hi ''))]"

text \<open>Messages and states of the dashboard; a network that answers and one that is down.\<close>

definition example_message :: "string \<Rightarrow> nat \<Rightarrow> int \<Rightarrow> message" where
  "example_message i n t =
     \<lparr> message_id = js i, message_text = js ''hello'', tag = js ''question'', reviewed = False,
       created_at = t, reply = None, reaction_count = Some n \<rparr>"

definition twelve_messages :: "message list" where
  "twelve_messages =
     [example_message ''a'' 0 0, example_message ''b'' 1 0, example_message ''c'' 2 0,
      example_message ''d'' 3 0, example_message ''e'' 4 0, example_message ''f'' 5 0,
      example_message ''g'' 6 0, example_message ''h'' 7 0, example_message ''i'' 8 0,
      example_message ''j'' 9 0, example_message ''k'' 10 0, example_message ''l'' 11 0]"

definition second_page :: dashboard where
  "second_page = initial_dashboard\<lparr> messages := twelve_messages, currentPage := 2 \<rparr>"



definition five_hot :: dashboard where
  "five_hot =
     initial_dashboard\<lparr> allMessages :=
       [example_message ''a'' 7 0, example_message ''b'' 7 0, example_message ''c'' 7 0,
        example_message ''d'' 7 0, example_message ''e'' 7 0] \<rparr>"

definition two_hot :: dashboard where
  "two_hot =
     initial_dashboard\<lparr> allMessages :=
       [example_message ''a'' 9 0, example_message ''b'' 5 0, example_message ''c'' 4 0] \<rparr>"

definition ok_response :: "'a \<Rightarrow> 'a fetch_response promise" where
  "ok_response p = Fulfilled \<lparr> ok = True, json = Fulfilled p \<rparr>"


fun count_by_id :: "jstring \<Rightarrow> nat option fetch_response promise" where
  "count_by_id i = ok_response (Some (length i))"

fun accepts2 :: "jstring \<Rightarrow> bool \<Rightarrow> unit fetch_response promise" where
  "accepts2 i b = ok_response ()"

fun accepts1 :: "jstring \<Rightarrow> unit fetch_response promise" where
  "accepts1 i = ok_response ()"

fun accepts3 :: "jstring \<Rightarrow> jstring \<Rightarrow> bool \<Rightarrow> unit fetch_response promise" where
  "accepts3 i t b = ok_response ()"

fun accepts_feedback :: "jstring \<Rightarrow> jstring option \<Rightarrow> jstring \<Rightarrow> jstring option fetch_response promise" where
  "accepts_feedback c s m = ok_response None"






definition fetched_feed :: "message list" where
  "fetched_feed =
     [(example_message ''aa'' 0 10)\<lparr> reaction_count := None \<rparr>,
      (example_message ''bbbbb'' 0 1)\<lparr> reaction_count := None \<rparr>,
      (example_message ''cc'' 0 10)\<lparr> reaction_count := None \<rparr>,
      (example_message ''dd'' 0 20)\<lparr> reaction_count := None \<rparr>]"

definition online_network :: network where
  "online_network =
     \<lparr> get_feedback_filtered = ok_response (Some fetched_feed),
       get_feedback_all = ok_response (Some fetched_feed),
       get_reactions = count_by_id,
       patch_feedback = accepts2, delete_feedback = accepts1, post_replies = accepts3,
       patch_replies = accepts2, post_creator_feedback = accepts_feedback \<rparr>"





section \<open>Properties of the route\<close>

subsection \<open>Trimming and the two validations\<close>

lemma dropWhile_ws_hd: "dropWhile is_ws s \<noteq> [] \<Longrightarrow> \<not> is_ws (hd (dropWhile is_ws s))"
  by (rule hd_dropWhile)

lemma last_dropWhile: "dropWhile P xs \<noteq> [] \<Longrightarrow> last (dropWhile P xs) = last xs"
  by (induction xs) (auto split: if_splits)

lemma trim_empty_iff: "trim s = [] \<longleftrightarrow> whitespace_only s"
proof
  assume "trim s = []"
  then have a: "\<forall>c \<in> set (dropWhile is_ws s). is_ws c"
    by (simp add: trim_def dropWhile_eq_Nil_conv)
  have "dropWhile is_ws s = []"
  proof (rule ccontr)
    assume n: "dropWhile is_ws s \<noteq> []"
    then have "hd (dropWhile is_ws s) \<in> set (dropWhile is_ws s)" by simp
    with a have "is_ws (hd (dropWhile is_ws s))" by blast
    with dropWhile_ws_hd [OF n] show False by simp
  qed
  then show "whitespace_only s"
    by (simp add: whitespace_only_def dropWhile_eq_Nil_conv)
next
  assume "whitespace_only s"
  then have "dropWhile is_ws s = []"
    by (simp add: whitespace_only_def dropWhile_eq_Nil_conv)
  then show "trim s = []" unfolding trim_def by (simp only: rev.simps dropWhile.simps)
qed

lemma trim_no_outer_ws: "no_outer_ws (trim s)"
proof (cases "trim s = []")
  case True
  then show ?thesis by (simp add: no_outer_ws_def)
next
  case False
  let ?d = "dropWhile is_ws s"
  let ?e = "dropWhile is_ws (rev ?d)"
  from False have e: "?e \<noteq> []" by (simp add: trim_def)
  then have d: "?d \<noteq> []" by (cases "?d") simp_all
  have "last (trim s) = hd ?e" using e by (simp add: trim_def last_rev)
  then have l: "\<not> is_ws (last (trim s))" using dropWhile_ws_hd hd_dropWhile [of is_ws "rev ?d"] e by simp
  have "hd (trim s) = last ?e" using e by (simp add: trim_def hd_rev)
  also have "\<dots> = last (rev ?d)" using e by (rule last_dropWhile)
  also have "\<dots> = hd ?d" using d by (simp add: last_rev)
  finally have "\<not> is_ws (hd (trim s))" using dropWhile_ws_hd [OF d] by simp
  with l show ?thesis by (simp add: no_outer_ws_def)
qed

lemma allowed_nonempty: "s \<in> set ALLOWED_CATEGORIES \<Longrightarrow> s \<noteq> []"
  by (auto simp: ALLOWED_CATEGORIES_def js_def)

lemma invalid_category_iff:
  "invalid_category v \<longleftrightarrow> v \<notin> JStr ` set ALLOWED_CATEGORIES"
  by (cases v) (auto simp: invalid_category_def dest: allowed_nonempty)

lemma message_required_iff:
  "message_required v \<longleftrightarrow> (\<forall>m. v = JStr m \<longrightarrow> whitespace_only m)"
  by (cases v) (auto simp: message_required_def trim_empty_iff whitespace_only_def)

lemma invalid_category_False:
  "\<not> invalid_category v \<longleftrightarrow> (\<exists>k. v = JStr k \<and> k \<in> set ALLOWED_CATEGORIES)"
  by (auto simp: invalid_category_iff)

lemma message_required_False:
  "\<not> message_required v \<longleftrightarrow> (\<exists>m. v = JStr m \<and> trim m \<noteq> [])"
  by (auto simp: message_required_iff trim_empty_iff)

lemma subject_or_null_Inr:
  "subject_or_null v = Inr subj \<longleftrightarrow>
     (v = JUndefined \<or> v = JNull) \<and> subj = None \<or>
     (\<exists>s. v = JStr s \<and> subj = (if trim s = [] then None else Some (trim s)))"
  by (cases v) auto

lemma db_insert_Inr:
  "db_insert d v = Inr (r, d') \<longleftrightarrow>
     fault d v = None \<and> text_columns v \<and>
     ins_creator_id v \<in> set (creators d) \<and> ins_category v \<in> set category_check \<and>
     r = stored_row d v \<and> d' = d\<lparr> feedback_rows := feedback_rows d @ [r] \<rparr>"
  by (auto simp: db_insert_def stored_row_def Let_def split: option.splits)

subsection \<open>The route after authentication\<close>

lemmas route_defs = POST_def POST_try_def respond_def db_insert_def text_columns_def
  text_value_def invalid_category_def
  message_required_def ALLOWED_CATEGORIES_def category_check_def trim_def is_ws_def Let_def

lemmas example_defs = example_env_def example_db_def example_auth_def feedback_body_def js_def

lemma POST_try_validated:
  assumes "requireCreator env = Inr a" "companyId a = Some c" "c \<noteq> []" "request_json env = Inr b"
  shows "POST_try env =
     (if invalid_category (get_prop b (js ''category''))
      then Inr (respond 400 (ErrorBody ''Invalid category'') [] (db env))
      else if message_required (get_prop b (js ''message''))
      then Inr (respond 400 (ErrorBody ''Message is required'') [] (db env))
      else
        (case getCreatorForCompany env c of
           Inl e \<Rightarrow> Inl e
         | Inr None \<Rightarrow> Inr (respond 404 (ErrorBody ''Creator not found for company'') [] (db env))
         | Inr (Some creator_id) \<Rightarrow>
             (case subject_or_null (get_prop b (js ''subject'')) of
                Inl e \<Rightarrow> Inl e
              | Inr subj \<Rightarrow>
                  (case db_insert (db env)
                          \<lparr> ins_creator_id = creator_id, ins_company_id = c, ins_user_id = userId a,
                            ins_category = (case get_prop b (js ''category'') of JStr k \<Rightarrow> k | _ \<Rightarrow> []),
                            ins_subject = subj,
                            ins_message = (case get_prop b (js ''message'') of JStr m \<Rightarrow> trim m | _ \<Rightarrow> []) \<rparr> of
                     Inl err \<Rightarrow> Inr (respond 500 (ErrorBody ''Failed to submit feedback'')
                                      [''Error inserting creator feedback:''] (db env))
                   | Inr (data, db') \<Rightarrow> Inr (respond 201 (DataBody data) [] db')))))"
  using assms by (simp add: POST_try_def Let_def split: sum.split option.split)

lemma POST_201_D:
  assumes "status (response (POST env)) = 201"
  shows "\<exists>a c b k m subj cr r.
     requireCreator env = Inr a \<and> companyId a = Some c \<and> c \<noteq> [] \<and> request_json env = Inr b \<and>
     get_prop b (js ''category'') = JStr k \<and> k \<in> set ALLOWED_CATEGORIES \<and>
     get_prop b (js ''message'') = JStr m \<and> trim m \<noteq> [] \<and>
     subject_or_null (get_prop b (js ''subject'')) = Inr subj \<and>
     getCreatorForCompany env c = Inr (Some cr) \<and>
     r = stored_row (db env) \<lparr> ins_creator_id = cr, ins_company_id = c, ins_user_id = userId a,
                               ins_category = k, ins_subject = subj, ins_message = trim m \<rparr> \<and>
     POST env = respond 201 (DataBody r) [] ((db env)\<lparr> feedback_rows := feedback_rows (db env) @ [r] \<rparr>)"
proof (cases "requireCreator env")
  case (Inl e)
  with assms show ?thesis
    by (simp add: POST_def POST_try_def respond_def Let_def split: if_splits)
next
  case (Inr a)
  show ?thesis
  proof (cases "companyId a")
    case None
    with Inr assms show ?thesis
      by (simp add: POST_def POST_try_def respond_def)
  next
    case (Some c)
    show ?thesis
    proof (cases "c = []")
      case True
      with Inr Some assms show ?thesis
        by (simp add: POST_def POST_try_def respond_def)
    next
      case False
      show ?thesis
      proof (cases "request_json env")
        case (Inl e)
        with Inr Some False assms show ?thesis
          by (simp add: POST_def POST_try_def respond_def Let_def split: if_splits)
      next
        case b: (Inr b)
        note v = POST_try_validated [OF Inr Some False b]
        from assms v have c: "\<not> invalid_category (get_prop b (js ''category''))"
          by (auto simp: POST_def respond_def)
        from assms v c have m: "\<not> message_required (get_prop b (js ''message''))"
          by (auto simp: POST_def respond_def)
        from c obtain k where k: "get_prop b (js ''category'') = JStr k" "k \<in> set ALLOWED_CATEGORIES"
          by (auto simp: invalid_category_False)
        from m obtain msg where msg: "get_prop b (js ''message'') = JStr msg" "trim msg \<noteq> []"
          by (auto simp: message_required_False)
        from assms v c m obtain cr where cr: "getCreatorForCompany env c = Inr (Some cr)"
          by (auto simp: POST_def respond_def Let_def split: sum.splits option.splits if_splits)
        from assms v c m cr obtain subj where subj: "subject_or_null (get_prop b (js ''subject'')) = Inr subj"
          by (auto simp: POST_def respond_def Let_def split: sum.splits option.splits if_splits)
        let ?v = "\<lparr> ins_creator_id = cr, ins_company_id = c, ins_user_id = userId a,
                    ins_category = k, ins_subject = subj, ins_message = trim msg \<rparr>"
        from assms v c m cr subj k msg obtain r d' where ins: "db_insert (db env) ?v = Inr (r, d')"
          by (auto simp: POST_def respond_def Let_def split: sum.splits option.splits if_splits)
        then have r: "r = stored_row (db env) ?v" "d' = (db env)\<lparr> feedback_rows := feedback_rows (db env) @ [r] \<rparr>"
          by (simp_all add: db_insert_Inr)
        from v c m cr subj k msg ins have "POST env = respond 201 (DataBody r) [] d'"
          by (simp add: POST_def)
        with Inr Some False b k msg subj cr r show ?thesis by blast
      qed
    qed
  qed
qed

subsection \<open>Responses\<close>

text \<open>
  C1 (amended). When \<open>requireCreator\<close> returns with a non-empty company id and the request has a
  JSON body, a category that is missing or is not one of the strings bug, feedback, idea, other
  gives the response 400 with the error \<open>Invalid category\<close>, whatever the other fields of the
  body are; nothing is logged and the storage is unchanged.
\<close>

theorem invalid_category_400:
  assumes "requireCreator env = Inr a" and "companyId a = Some c" and "c \<noteq> []"
    and "request_json env = Inr b"
    and "get_prop b (js ''category'') \<notin>
           {JStr (js ''bug''), JStr (js ''feedback''), JStr (js ''idea''), JStr (js ''other'')}"
  shows "POST env = respond 400 (ErrorBody ''Invalid category'') [] (db env)"
proof -
  from assms(5) have "invalid_category (get_prop b (js ''category''))"
    by (simp add: invalid_category_iff ALLOWED_CATEGORIES_def)
  with POST_try_validated [OF assms(1-4)] show ?thesis
    by (simp add: POST_def)
qed

theorem invalid_category_400_witness:
  "POST (example_env (Inr example_auth) (feedback_body ''spam'' ''hello''))
     = respond 400 (ErrorBody ''Invalid category'') [] example_db"
  using invalid_category_400 [of "example_env (Inr example_auth) (feedback_body ''spam'' ''hello'')"
      example_auth "js ''biz_1''" "feedback_body ''spam'' ''hello''"]
  by (simp add: example_defs)

text \<open>
  Authentication is checked before the body is read: with a category outside the list and
  \<open>requireCreator\<close> throwing \<open>Unauthorized\<close>, the response is 401.
\<close>

theorem category_precedes_auth_counterexample:
  "get_prop (feedback_body ''spam'' ''hello'') (js ''category'') = JStr (js ''spam'') \<and>
   status (response (POST (example_env (Inl (JsError (Some (js ''Unauthorized'')))) (feedback_body ''spam'' ''hello'')))) = 401"
  by (simp add: route_defs example_defs)

text \<open>
  C2 (amended). When \<open>requireCreator\<close> returns with a non-empty company id and the category of
  the body is one of the four allowed strings, a message that is missing, not a string, empty or
  made of whitespace only gives the response 400 with the error \<open>Message is required\<close>.
\<close>

theorem blank_message_400:
  assumes "requireCreator env = Inr a" and "companyId a = Some c" and "c \<noteq> []"
    and "request_json env = Inr b"
    and "get_prop b (js ''category'') \<in>
           {JStr (js ''bug''), JStr (js ''feedback''), JStr (js ''idea''), JStr (js ''other'')}"
    and "\<forall>m. get_prop b (js ''message'') = JStr m \<longrightarrow> whitespace_only m"
  shows "POST env = respond 400 (ErrorBody ''Message is required'') [] (db env)"
proof -
  from assms(5) have "\<not> invalid_category (get_prop b (js ''category''))"
    by (simp add: invalid_category_iff ALLOWED_CATEGORIES_def)
  moreover from assms(6) have "message_required (get_prop b (js ''message''))"
    by (simp add: message_required_iff)
  ultimately show ?thesis
    using POST_try_validated [OF assms(1-4)] by (simp add: POST_def)
qed

theorem blank_message_400_witness:
  "whitespace_only (js ''   '') \<and>
   POST (example_env (Inr example_auth) (feedback_body ''idea'' ''   ''))
     = respond 400 (ErrorBody ''Message is required'') [] example_db"
  using blank_message_400 [of "example_env (Inr example_auth) (feedback_body ''idea'' ''   '')"
      example_auth "js ''biz_1''" "feedback_body ''idea'' ''   ''"]
  by (simp add: example_defs whitespace_only_def is_ws_def)

text \<open>
  An allowed category and an empty message, sent without authentication: the response is 401.
\<close>

theorem message_precedes_auth_counterexample:
  "get_prop (feedback_body ''idea'' []) (js ''category'') = JStr (js ''idea'') \<and>
   get_prop (feedback_body ''idea'' []) (js ''message'') = JStr [] \<and>
   status (response (POST (example_env (Inl (JsError (Some (js ''Unauthorized'')))) (feedback_body ''idea'' [])))) = 401"
  by (simp add: route_defs example_defs)

text \<open>
  C3 (amended). When \<open>requireCreator\<close> returns with a non-empty company id, the category is one
  of the four allowed strings, the message is a string that is not whitespace only, the subject
  is absent, \<open>null\<close> or a string, a creator is found for the company, and the storage insert of
  the submitted values succeeds, the response is 201 and its body is the persisted row, the one
  just appended to the table: its category is the submitted one, its message is the submitted
  message trimmed, and its subject is the submitted subject trimmed, or \<open>NULL\<close> when the subject
  is absent, \<open>null\<close> or blank.
\<close>

theorem valid_submission_201:
  assumes "requireCreator env = Inr a" and "companyId a = Some c" and "c \<noteq> []"
    and "request_json env = Inr b"
    and "get_prop b (js ''category'') = JStr k"
    and "k \<in> {js ''bug'', js ''feedback'', js ''idea'', js ''other''}"
    and "get_prop b (js ''message'') = JStr m" and "\<not> whitespace_only m"
    and "get_prop b (js ''subject'') \<in> {JUndefined, JNull} \<union> range JStr"
    and "getCreatorForCompany env c = Inr (Some cr)"
    and "db_insert (db env)
           \<lparr> ins_creator_id = cr, ins_company_id = c, ins_user_id = userId a, ins_category = k,
             ins_subject = (case get_prop b (js ''subject'') of
                              JStr s \<Rightarrow> if whitespace_only s then None else Some (trim s)
                            | _ \<Rightarrow> None),
             ins_message = trim m \<rparr> = Inr (row, db')"
  shows "POST env = respond 201 (DataBody row) [] db' \<and>
         feedback_rows db' = feedback_rows (db env) @ [row] \<and>
         row_category row = k \<and>
         row_message row = trim m \<and>
         row_subject row =
           (case get_prop b (js ''subject'') of
              JStr s \<Rightarrow> if whitespace_only s then None else Some (trim s)
            | _ \<Rightarrow> None)"
proof -
  from assms(5,6) have c: "\<not> invalid_category (get_prop b (js ''category''))"
    by (auto simp: invalid_category_False ALLOWED_CATEGORIES_def)
  from assms(7,8) have m: "\<not> message_required (get_prop b (js ''message''))"
    by (simp add: message_required_False trim_empty_iff)
  define subj where "subj = (case get_prop b (js ''subject'') of
              JStr s \<Rightarrow> if whitespace_only s then None else Some (trim s)
            | _ \<Rightarrow> None)"
  from assms(9) have s: "subject_or_null (get_prop b (js ''subject'')) = Inr subj"
    by (auto simp: subj_def trim_empty_iff)
  let ?v = "\<lparr> ins_creator_id = cr, ins_company_id = c, ins_user_id = userId a,
              ins_category = k, ins_subject = subj, ins_message = trim m \<rparr>"
  from assms(11) have i: "db_insert (db env) ?v = Inr (row, db')"
    unfolding subj_def .
  then have r: "row = stored_row (db env) ?v"
    and d: "db' = (db env)\<lparr> feedback_rows := feedback_rows (db env) @ [row] \<rparr>"
    by (simp_all add: db_insert_Inr)
  from POST_try_validated [OF assms(1-4)] c m s i assms(5,7,10)
  have p: "POST env = respond 201 (DataBody row) [] db'"
    by (simp add: POST_def)
  from d have f: "feedback_rows db' = feedback_rows (db env) @ [row]" by simp
  from r have "row_category row = k" "row_message row = trim m" "row_subject row = subj"
    by (simp_all add: stored_row_def)
  with p f show ?thesis unfolding subj_def by simp
qed

theorem valid_submission_201_witness:
  "POST (example_env (Inr example_auth) example_body_subject) =
     respond 201 (DataBody example_row) [] (example_db\<lparr> feedback_rows := [example_row] \<rparr>) \<and>
   row_category example_row = js ''bug'' \<and>
   row_message example_row = js ''hi'' \<and>
   row_subject example_row = None"
proof -
  let ?env = "example_env (Inr example_auth) example_body_subject"
  have 1: "requireCreator ?env = Inr example_auth" by (simp add: example_env_def)
  have 2: "companyId example_auth = Some (js ''biz_1'')" by (simp add: example_auth_def)
  have 3: "js ''biz_1'' \<noteq> []" by (simp add: js_def)
  have 4: "request_json ?env = Inr example_body_subject" by (simp add: example_env_def)
  have 5: "get_prop example_body_subject (js ''category'') = JStr (js ''bug'')"
    by (simp add: example_body_subject_def js_def)
  have 6: "js ''bug'' \<in> {js ''bug'', js ''feedback'', js ''idea'', js ''other''}" by simp
  have 7: "get_prop example_body_subject (js ''message'') = JStr (js '' hi '')"
    by (simp add: example_body_subject_def js_def)
  have 8: "\<not> whitespace_only (js '' hi '')" by (simp add: whitespace_only_def js_def is_ws_def)
  have s: "get_prop example_body_subject (js ''subject'') = JStr (js ''  '')"
    by (simp add: example_body_subject_def js_def)
  have 9: "get_prop example_body_subject (js ''subject'') \<in> {JUndefined, JNull} \<union> range JStr"
    unfolding s by simp
  have 10: "getCreatorForCompany ?env (js ''biz_1'') = Inr (Some (js ''creator-1''))"
    by (simp add: example_env_def)
  have t: "trim (js '' hi '') = js ''hi''" by (simp add: trim_def js_def is_ws_def)
  have w: "whitespace_only (js ''  '')" by (simp add: whitespace_only_def js_def is_ws_def)
  have e: "(case get_prop example_body_subject (js ''subject'') of
              JStr s \<Rightarrow> if whitespace_only s then None else Some (trim s) | _ \<Rightarrow> None) = None"
    by (simp add: s w)
  have d: "db ?env = example_db" by (simp add: example_env_def)
  have 11: "db_insert (db ?env)
           \<lparr> ins_creator_id = js ''creator-1'', ins_company_id = js ''biz_1'',
             ins_user_id = userId example_auth, ins_category = js ''bug'',
             ins_subject = (case get_prop example_body_subject (js ''subject'') of
                              JStr s \<Rightarrow> if whitespace_only s then None else Some (trim s)
                            | _ \<Rightarrow> None),
             ins_message = trim (js '' hi '') \<rparr>
         = Inr (example_row, example_db\<lparr> feedback_rows := [example_row] \<rparr>)"
    unfolding e t d
    by (simp add: db_insert_def text_columns_def text_value_def category_check_def example_db_def
        example_auth_def example_row_def js_def Let_def)
  have r: "row_category example_row = js ''bug''" "row_message example_row = js ''hi''"
    "row_subject example_row = None"
    by (simp_all add: example_row_def)
  from valid_submission_201 [OF 1 2 3 4 5 6 7 8 9 10 11] r show ?thesis
    by blast
qed

text \<open>
  The message \<open>" hi "\<close> is accepted with 201 and persisted as \<open>"hi"\<close>, which is not the
  submitted string.
\<close>

theorem trimmed_echo_counterexample:
  "request_json (example_env (Inr example_auth) (feedback_body ''bug'' '' hi '')) = Inr (feedback_body ''bug'' '' hi '') \<and>
   get_prop (feedback_body ''bug'' '' hi '') (js ''message'') = JStr (js '' hi '') \<and>
   status (response (POST (example_env (Inr example_auth) (feedback_body ''bug'' '' hi '')))) = 201 \<and>
   row_message (body_data (body (response (POST (example_env (Inr example_auth) (feedback_body ''bug'' '' hi '')))))) = js ''hi'' \<and>
   js ''hi'' \<noteq> js '' hi ''"
  by (simp add: route_defs example_defs)

text \<open>
  C4 (amended). When \<open>requireCreator\<close> throws, the response is 401 exactly when the thrown value
  has a string message that includes \<open>Unauthorized\<close>; any other thrown value gives 500 with the
  generic message. In both cases the error is logged and the storage is unchanged.
\<close>

theorem auth_failure_status:
  assumes "requireCreator env = Inl e"
  shows "POST env =
     (if includes_str (case err_message e of Some m \<Rightarrow> m | None \<Rightarrow> []) (js ''Unauthorized'')
      then respond 401 (ErrorBody ''Unauthorized'') [''Error handling POST /api/creator-feedback:''] (db env)
      else respond 500 (ErrorBody ''Internal server error'') [''Error handling POST /api/creator-feedback:''] (db env))"
  using assms by (simp add: POST_def POST_try_def)

theorem auth_failure_status_witness:
  "POST (example_env (Inl (JsError (Some (js ''Unauthorized'')))) (feedback_body ''bug'' ''hello''))
     = respond 401 (ErrorBody ''Unauthorized'') [''Error handling POST /api/creator-feedback:''] example_db"
  using auth_failure_status [of "example_env (Inl (JsError (Some (js ''Unauthorized'')))) (feedback_body ''bug'' ''hello'')"
      "JsError (Some (js ''Unauthorized''))"]
  by (simp add: example_defs)

text \<open>
  \<open>requireCreator\<close> failing with an error whose message lacks \<open>Unauthorized\<close> is answered
  with 500.
\<close>

theorem auth_failure_500_counterexample:
  "requireCreator (example_env (Inl (JsError (Some (js ''Forbidden'')))) (feedback_body ''bug'' ''hello''))
     = Inl (JsError (Some (js ''Forbidden''))) \<and>
   status (response (POST (example_env (Inl (JsError (Some (js ''Forbidden'')))) (feedback_body ''bug'' ''hello'')))) = 500"
  by (simp add: route_defs example_defs)

text \<open>
  C10. Whenever the route answers 201, the body is the row just appended to the table; its
  message is non-empty and has no whitespace at either end; its subject is \<open>NULL\<close> or a non-empty
  string with no whitespace at either end; and a submitted subject made of whitespace only is
  stored as \<open>NULL\<close>.
\<close>

theorem created_record_trimmed:
  assumes "status (response (POST env)) = 201"
  shows "body (response (POST env)) = DataBody (last (feedback_rows (db_after (POST env)))) \<and>
         row_message (body_data (body (response (POST env)))) \<noteq> [] \<and>
         no_outer_ws (row_message (body_data (body (response (POST env))))) \<and>
         (\<forall>s. row_subject (body_data (body (response (POST env)))) = Some s \<longrightarrow> s \<noteq> [] \<and> no_outer_ws s) \<and>
         (\<forall>b s. request_json env = Inr b \<and> get_prop b (js ''subject'') = JStr s \<and> whitespace_only s
            \<longrightarrow> row_subject (body_data (body (response (POST env)))) = None)"
proof -
  from POST_201_D [OF assms] obtain a :: auth and c b k m subj cr r where
    b: "request_json env = Inr b" and m: "trim m \<noteq> []" and
    s: "subject_or_null (get_prop b (js ''subject'')) = Inr subj" and
    r: "r = stored_row (db env) \<lparr> ins_creator_id = cr, ins_company_id = c, ins_user_id = userId a,
                               ins_category = k, ins_subject = subj, ins_message = trim m \<rparr>" and
    p: "POST env = respond 201 (DataBody r) [] ((db env)\<lparr> feedback_rows := feedback_rows (db env) @ [r] \<rparr>)"
    by blast
  from r have rm: "row_message r = trim m" and rs: "row_subject r = subj"
    by (simp_all add: stored_row_def)
  from s have subj_ok: "\<forall>t. subj = Some t \<longrightarrow> t \<noteq> [] \<and> no_outer_ws t"
    by (auto simp: subject_or_null_Inr trim_no_outer_ws split: if_splits)
  from s have blank: "\<forall>t. get_prop b (js ''subject'') = JStr t \<and> whitespace_only t \<longrightarrow> subj = None"
    by (auto simp: subject_or_null_Inr trim_empty_iff)
  from p have "body (response (POST env)) = DataBody r" "last (feedback_rows (db_after (POST env))) = r"
    by (simp_all add: respond_def)
  with rm rs m subj_ok blank b show ?thesis
    using trim_no_outer_ws [of m] by auto
qed

theorem created_record_trimmed_witness:
  "status (response (POST (example_env (Inr example_auth) example_body_subject))) = 201 \<and>
   no_outer_ws (row_message (body_data (body (response (POST (example_env (Inr example_auth) example_body_subject)))))) \<and>
   row_subject (body_data (body (response (POST (example_env (Inr example_auth) example_body_subject))))) = None"
proof -
  have h: "status (response (POST (example_env (Inr example_auth) example_body_subject))) = 201"
    by (simp add: route_defs example_defs example_body_subject_def)
  have w: "request_json (example_env (Inr example_auth) example_body_subject) = Inr example_body_subject \<and>
           get_prop example_body_subject (js ''subject'') = JStr (js ''  '') \<and> whitespace_only (js ''  '')"
    by (simp add: example_defs example_body_subject_def whitespace_only_def is_ws_def)
  from created_record_trimmed [OF h] w h show ?thesis by blast
qed

section \<open>Properties of the dashboard\<close>

subsection \<open>Pagination\<close>

lemma getFiltered_page: "getFilteredMessages (s\<lparr> currentPage := p \<rparr>) = getFilteredMessages s"
  by (simp add: getFilteredMessages_def inboxMessages_def reviewedMessages_def)

lemma ceiling_pages: "\<lceil>real n / real_of_int 10\<rceil> = (int n + 9) div 10"
proof -
  have "\<lceil>real n / real_of_int 10\<rceil> = \<lceil>real_of_int (int n) / real_of_int 10\<rceil>" by simp
  also have "\<dots> = - (- int n div 10)" by (rule ceiling_divide_eq_div)
  also have "\<dots> = (int n + 9) div 10" by presburger
  finally show ?thesis .
qed

lemma totalPages_div: "totalPages s = (int (length (getFilteredMessages s)) + 9) div 10"
  unfolding totalPages_def MESSAGES_PER_PAGE_def by (rule ceiling_pages)

lemma array_slice_take_drop:
  assumes "0 \<le> a" and "a \<le> b"
  shows "array_slice xs a b = take (nat (b - a)) (drop (nat a) xs)"
proof (cases "a \<le> int (length xs)")
  case True
  have "nat (min b (int (length xs)) - a) = min (nat (b - a)) (length xs - nat a)"
    using True assms by (simp add: min_def) arith
  with True assms have "array_slice xs a b = take (min (nat (b - a)) (length xs - nat a)) (drop (nat a) xs)"
    by (simp add: array_slice_def Let_def min_def)
  also have "\<dots> = take (nat (b - a)) (drop (nat a) xs)"
    by (simp add: min_def)
  finally show ?thesis .
next
  case False
  with assms show ?thesis
    by (simp add: array_slice_def Let_def min_def)
qed

lemma page_slice:
  assumes "1 \<le> p"
  shows "array_slice xs ((p - 1) * 10) (p * 10) = take 10 (drop (nat ((p - 1) * 10)) xs)"
proof -
  have "nat (p * 10 - (p - 1) * 10) = 10" by (simp add: algebra_simps)
  with array_slice_take_drop [of "(p - 1) * 10" "p * 10" xs] assms show ?thesis
    by simp
qed

lemma pages_concat:
  "concat (map (\<lambda>p. take 10 (drop (nat ((p - 1) * 10)) xs)) [1..int k]) = take (10 * k) xs"
proof (induction k)
  case 0
  show ?case by simp
next
  case (Suc k)
  have u: "[1..int (Suc k)] = [1..int k] @ [int k + 1]"
    by (simp add: upto_rec2 add.commute)
  have n: "nat ((int k + 1 - 1) * 10) = 10 * k" by (simp add: nat_mult_distrib)
  have s: "10 * Suc k = 10 * k + 10" by simp
  have "concat (map (\<lambda>p. take 10 (drop (nat ((p - 1) * 10)) xs)) [1..int (Suc k)])
        = take (10 * k) xs @ take 10 (drop (10 * k) xs)"
    unfolding u using Suc n by simp
  also have "\<dots> = take (10 * Suc k) xs"
    unfolding s by (simp only: take_add)
  finally show ?case .
qed

text \<open>
  C7. For every state whose current page \<open>p\<close> satisfies \<open>1 \<le> p \<le> totalPages\<close>, where
  \<open>totalPages\<close> is the ceiling of the length of the filtered list over 10, the displayed page is the
  part of the filtered list from index \<open>(p - 1) * 10\<close> up to \<open>p * 10\<close>: it holds between one and
  ten messages, and the pages 1 to \<open>totalPages\<close> concatenated in order give the filtered list.
\<close>

theorem pagination_slices:
  assumes "1 \<le> currentPage s" and "currentPage s \<le> totalPages s"
  shows "paginatedMessages s =
           take 10 (drop (nat ((currentPage s - 1) * 10)) (getFilteredMessages s)) \<and>
         length (paginatedMessages s) =
           min 10 (length (getFilteredMessages s) - nat ((currentPage s - 1) * 10)) \<and>
         (\<forall>i < length (paginatedMessages s).
            paginatedMessages s ! i = getFilteredMessages s ! (nat ((currentPage s - 1) * 10) + i)) \<and>
         0 < length (paginatedMessages s) \<and> length (paginatedMessages s) \<le> 10 \<and>
         concat (map (\<lambda>p. paginatedMessages (s\<lparr> currentPage := p \<rparr>)) [1..totalPages s])
           = getFilteredMessages s"
proof -
  let ?xs = "getFilteredMessages s"
  let ?k = "nat ((currentPage s - 1) * 10)"
  have eq: "paginatedMessages s = take 10 (drop ?k ?xs)"
    unfolding paginatedMessages_def MESSAGES_PER_PAGE_def using assms(1) by (rule page_slice)
  from assms have "(currentPage s - 1) * 10 < int (length ?xs)"
    unfolding totalPages_div by presburger
  then have lt: "?k < length ?xs" using assms(1) by simp
  have len: "length (paginatedMessages s) = min 10 (length ?xs - ?k)"
    unfolding eq by simp
  have nth: "\<forall>i < length (paginatedMessages s). paginatedMessages s ! i = ?xs ! (?k + i)"
    unfolding eq using lt by simp
  have "0 \<le> totalPages s" unfolding totalPages_div by simp
  then obtain t where t: "totalPages s = int t" using nonneg_int_cases by blast
  have le: "length ?xs \<le> 10 * t" using t unfolding totalPages_div by presburger
  have pg: "\<And>p. p \<in> set [1..int t] \<Longrightarrow>
      paginatedMessages (s\<lparr> currentPage := p \<rparr>) = take 10 (drop (nat ((p - 1) * 10)) ?xs)"
  proof -
    fix p assume "p \<in> set [1..int t]"
    then have "1 \<le> p" by simp
    have cp: "currentPage (s\<lparr> currentPage := p \<rparr>) = p" by simp
    from \<open>1 \<le> p\<close>
    show "paginatedMessages (s\<lparr> currentPage := p \<rparr>) = take 10 (drop (nat ((p - 1) * 10)) ?xs)"
      unfolding paginatedMessages_def MESSAGES_PER_PAGE_def getFiltered_page cp
      by (rule page_slice)
  qed
  have "map (\<lambda>p. paginatedMessages (s\<lparr> currentPage := p \<rparr>)) [1..int t]
        = map (\<lambda>p. take 10 (drop (nat ((p - 1) * 10)) ?xs)) [1..int t]"
    by (rule map_cong [OF refl]) (rule pg)
  then have "concat (map (\<lambda>p. paginatedMessages (s\<lparr> currentPage := p \<rparr>)) [1..totalPages s])
        = concat (map (\<lambda>p. take 10 (drop (nat ((p - 1) * 10)) ?xs)) [1..int t])"
    unfolding t by (rule arg_cong)
  also have "\<dots> = take (10 * t) ?xs" by (rule pages_concat)
  also have "\<dots> = ?xs" using le by simp
  finally have cat: "concat (map (\<lambda>p. paginatedMessages (s\<lparr> currentPage := p \<rparr>)) [1..totalPages s]) = ?xs" .
  have pos: "0 < length (paginatedMessages s)" unfolding len using lt by simp
  have ten: "length (paginatedMessages s) \<le> 10" unfolding len by simp
  from eq len nth pos ten cat show ?thesis by blast
qed

theorem pagination_slices_witness:
  "1 \<le> currentPage second_page \<and> currentPage second_page \<le> totalPages second_page \<and>
   paginatedMessages second_page = [example_message ''k'' 10 0, example_message ''l'' 11 0] \<and>
   length (paginatedMessages second_page) = 2"
proof -
  have f: "getFilteredMessages second_page = twelve_messages"
    by (simp add: getFilteredMessages_def second_page_def initial_dashboard_def)
  have c: "currentPage second_page = 2" by (simp add: second_page_def)
  have t: "totalPages second_page = 2"
    unfolding totalPages_div f by (simp add: twelve_messages_def)
  have h1: "1 \<le> currentPage second_page" and h2: "currentPage second_page \<le> totalPages second_page"
    unfolding c t by simp_all
  have "paginatedMessages second_page = take 10 (drop (nat ((currentPage second_page - 1) * 10)) (getFilteredMessages second_page))"
    using pagination_slices [OF h1 h2] by (rule conjunct1)
  then have "paginatedMessages second_page = [example_message ''k'' 10 0, example_message ''l'' 11 0]"
    unfolding c f by (simp add: twelve_messages_def)
  with h1 h2 show ?thesis by simp
qed

subsection \<open>Tabs\<close>




subsection \<open>Hot posts\<close>

lemma hot_posts_take:
  "hot_posts s =
     (if activeTab s = Overview
      then take 4 (filter (\<lambda>m. reaction_count_or_0 m \<ge> 5) (allMessages s)) else [])"
proof (cases "hot_posts_shown s")
  case True
  then show ?thesis
    unfolding hot_posts_def using array_slice_take_drop [of 0 4]
    by (simp add: hot_posts_shown_def)
next
  case False
  then have "activeTab s \<noteq> Overview \<or> filter (\<lambda>m. reaction_count_or_0 m \<ge> 5) (allMessages s) = []"
    by (simp add: hot_posts_shown_def)
  with False show ?thesis
    unfolding hot_posts_def by auto
qed

text \<open>
  C5 (amended). The hot-posts section is rendered on the overview tab only. There it shows the
  first four messages of \<open>allMessages\<close> whose reaction count is at least 5 (exceeds 4), in that
  order, and it appears exactly when some message has at least 5 reactions; on the inbox and
  reviewed tabs no hot post is shown. So every message shown has at least 5 reactions, a message
  with at most 4 reactions is never shown, at most four messages are shown, and on the overview
  tab, when at most four messages have at least 5 reactions, a message is shown if and only if
  it has.
\<close>

theorem hot_posts_threshold:
  "hot_posts s =
     (if activeTab s = Overview
      then take 4 (filter (\<lambda>m. reaction_count_or_0 m \<ge> 5) (allMessages s)) else []) \<and>
   (\<forall>m \<in> set (hot_posts s). m \<in> set (allMessages s) \<and> reaction_count_or_0 m > 4) \<and>
   (\<forall>m. reaction_count_or_0 m \<le> 4 \<longrightarrow> m \<notin> set (hot_posts s)) \<and>
   length (hot_posts s) \<le> 4 \<and>
   (hot_posts_shown s \<longleftrightarrow>
      activeTab s = Overview \<and> (\<exists>m \<in> set (allMessages s). reaction_count_or_0 m > 4)) \<and>
   (activeTab s \<noteq> Overview \<longrightarrow> \<not> hot_posts_shown s \<and> hot_posts s = []) \<and>
   (activeTab s = Overview \<and>
    length (filter (\<lambda>m. reaction_count_or_0 m \<ge> 5) (allMessages s)) \<le> 4 \<longrightarrow>
      (\<forall>m \<in> set (allMessages s). m \<in> set (hot_posts s) \<longleftrightarrow> reaction_count_or_0 m > 4))"
proof -
  let ?hot = "filter (\<lambda>m. reaction_count_or_0 m \<ge> 5) (allMessages s)"
  have ge5: "\<And>m. 5 \<le> reaction_count_or_0 m \<longleftrightarrow> 4 < reaction_count_or_0 m" by arith
  have t: "hot_posts s = (if activeTab s = Overview then take 4 ?hot else [])"
    by (rule hot_posts_take)
  have "set (take 4 ?hot) \<subseteq> set ?hot" by (rule set_take_subset)
  then have sub: "set (hot_posts s) \<subseteq> set ?hot" unfolding t by (cases "activeTab s = Overview") simp_all
  then have a: "\<forall>m \<in> set (hot_posts s). m \<in> set (allMessages s) \<and> reaction_count_or_0 m > 4"
    by (auto simp: ge5)
  then have b: "\<forall>m. reaction_count_or_0 m \<le> 4 \<longrightarrow> m \<notin> set (hot_posts s)"
    by fastforce
  have c: "length (hot_posts s) \<le> 4" unfolding t by simp
  have d: "hot_posts_shown s \<longleftrightarrow>
      activeTab s = Overview \<and> (\<exists>m \<in> set (allMessages s). reaction_count_or_0 m > 4)"
  proof -
    have "hot_posts_shown s \<longleftrightarrow> activeTab s = Overview \<and> ?hot \<noteq> []"
      by (simp add: hot_posts_shown_def)
    also have "\<dots> \<longleftrightarrow> activeTab s = Overview \<and> (\<exists>m \<in> set (allMessages s). reaction_count_or_0 m \<ge> 5)"
      by (simp add: filter_empty_conv)
    also have "\<dots> \<longleftrightarrow> activeTab s = Overview \<and> (\<exists>m \<in> set (allMessages s). reaction_count_or_0 m > 4)"
      unfolding ge5 ..
    finally show ?thesis .
  qed
  have n: "activeTab s \<noteq> Overview \<longrightarrow> \<not> hot_posts_shown s \<and> hot_posts s = []"
    unfolding t by (simp add: hot_posts_shown_def)
  have e: "activeTab s = Overview \<and> length ?hot \<le> 4 \<longrightarrow>
      (\<forall>m \<in> set (allMessages s). m \<in> set (hot_posts s) \<longleftrightarrow> reaction_count_or_0 m > 4)"
  proof
    assume "activeTab s = Overview \<and> length ?hot \<le> 4"
    then have "hot_posts s = ?hot" unfolding t by simp
    then show "\<forall>m \<in> set (allMessages s). m \<in> set (hot_posts s) \<longleftrightarrow> reaction_count_or_0 m > 4"
      by (auto simp: ge5)
  qed
  from t a b c d n e show ?thesis by blast
qed

theorem hot_posts_threshold_witness:
  "activeTab two_hot = Overview \<and>
   hot_posts two_hot = [example_message ''a'' 9 0, example_message ''b'' 5 0] \<and>
   example_message ''c'' 4 0 \<in> set (allMessages two_hot) \<and>
   reaction_count_or_0 (example_message ''c'' 4 0) \<le> 4 \<and>
   example_message ''c'' 4 0 \<notin> set (hot_posts two_hot) \<and>
   hot_posts_shown two_hot \<and>
   activeTab (two_hot\<lparr> activeTab := Inbox \<rparr>) \<noteq> Overview \<and>
   \<not> hot_posts_shown (two_hot\<lparr> activeTab := Inbox \<rparr>) \<and>
   hot_posts (two_hot\<lparr> activeTab := Inbox \<rparr>) = []"
proof -
  have o: "activeTab two_hot = Overview"
    by (simp add: two_hot_def initial_dashboard_def)
  have i: "activeTab (two_hot\<lparr> activeTab := Inbox \<rparr>) \<noteq> Overview" by simp
  have f: "filter (\<lambda>m. reaction_count_or_0 m \<ge> 5) (allMessages two_hot)
           = [example_message ''a'' 9 0, example_message ''b'' 5 0]"
    by (simp add: two_hot_def initial_dashboard_def example_message_def reaction_count_or_0_def)
  have c: "reaction_count_or_0 (example_message ''c'' 4 0) \<le> 4"
    by (simp add: example_message_def reaction_count_or_0_def)
  have a: "reaction_count_or_0 (example_message ''a'' 9 0) > 4"
    by (simp add: example_message_def reaction_count_or_0_def)
  have m: "example_message ''c'' 4 0 \<in> set (allMessages two_hot)"
       "example_message ''a'' 9 0 \<in> set (allMessages two_hot)"
    by (simp_all add: two_hot_def)
  note t = hot_posts_threshold [of two_hot]
  note u = hot_posts_threshold [of "two_hot\<lparr> activeTab := Inbox \<rparr>"]
  from t have "hot_posts two_hot =
      (if activeTab two_hot = Overview
       then take 4 (filter (\<lambda>m. reaction_count_or_0 m \<ge> 5) (allMessages two_hot)) else [])"
    by (rule conjunct1)
  then have h: "hot_posts two_hot = [example_message ''a'' 9 0, example_message ''b'' 5 0]"
    unfolding f o by simp
  from t c have n: "example_message ''c'' 4 0 \<notin> set (hot_posts two_hot)" by blast
  from t a m(2) o have s: "hot_posts_shown two_hot" by blast
  from u i have v: "\<not> hot_posts_shown (two_hot\<lparr> activeTab := Inbox \<rparr>) \<and>
      hot_posts (two_hot\<lparr> activeTab := Inbox \<rparr>) = []" by blast
  from o h m(1) c n s i v show ?thesis by blast
qed

text \<open>
  Five messages with 7 reactions each, on the overview tab: the first is shown as a hot post and
  the fifth is not, although their reaction counts are equal.
\<close>

theorem fifth_hot_post_counterexample:
  "activeTab five_hot = Overview \<and>
   reaction_count_or_0 (example_message ''a'' 7 0) = 7 \<and>
   reaction_count_or_0 (example_message ''e'' 7 0) = 7 \<and>
   example_message ''a'' 7 0 \<in> set (allMessages five_hot) \<and>
   example_message ''e'' 7 0 \<in> set (allMessages five_hot) \<and>
   example_message ''a'' 7 0 \<in> set (hot_posts five_hot) \<and>
   example_message ''e'' 7 0 \<notin> set (hot_posts five_hot)"
  by (simp add: hot_posts_take five_hot_def initial_dashboard_def example_message_def
      reaction_count_or_0_def js_def)

subsection \<open>Ranking of \<open>allMessages\<close>\<close>

lemma compare_le_0: "compare_messages a b \<le> 0 \<longleftrightarrow> ranks_before a b"
  by (auto simp: compare_messages_def ranks_before_def Let_def)

lemma compare_tied: "fully_tied a b \<Longrightarrow> compare_messages b a \<le> 0"
  by (simp add: compare_messages_def fully_tied_def Let_def)

lemma ranks_before_total: "\<not> ranks_before a b \<Longrightarrow> ranks_before b a"
  by (auto simp: ranks_before_def)

lemma ranks_before_trans: "ranks_before a b \<Longrightarrow> ranks_before b c \<Longrightarrow> ranks_before a c"
  by (auto simp: ranks_before_def)

lemma set_insert_by: "set (insert_by cmp x ys) = insert x (set ys)"
  by (induction ys) auto

lemma mset_insert_by: "mset (insert_by cmp x ys) = add_mset x (mset ys)"
  by (induction ys) auto

lemma mset_array_sort: "mset (array_sort cmp xs) = mset xs"
  by (induction xs) (auto simp: mset_insert_by)

lemma sorted_insert_by:
  "sorted_wrt ranks_before ys \<Longrightarrow> sorted_wrt ranks_before (insert_by compare_messages x ys)"
proof (induction ys)
  case Nil
  show ?case by simp
next
  case (Cons y ys)
  show ?case
  proof (cases "compare_messages x y \<le> 0")
    case True
    then have xy: "ranks_before x y" by (simp add: compare_le_0)
    with Cons.prems have "\<forall>z \<in> set ys. ranks_before x z"
      by (auto intro: ranks_before_trans)
    with True xy Cons.prems show ?thesis by simp
  next
    case False
    then have yx: "ranks_before y x" by (simp add: compare_le_0 ranks_before_total)
    from Cons have "sorted_wrt ranks_before (insert_by compare_messages x ys)" by simp
    with False yx Cons.prems show ?thesis by (auto simp: set_insert_by)
  qed
qed

lemma sorted_array_sort: "sorted_wrt ranks_before (array_sort compare_messages xs)"
  by (induction xs) (auto intro: sorted_insert_by)

lemma filter_insert_by_tied:
  "filter (fully_tied k) (insert_by compare_messages x ys) =
     (if fully_tied k x then x # filter (fully_tied k) ys else filter (fully_tied k) ys)"
proof (induction ys)
  case Nil
  show ?case by simp
next
  case (Cons y ys)
  show ?case
  proof (cases "compare_messages x y \<le> 0")
    case True
    then show ?thesis by simp
  next
    case False
    have "\<not> (fully_tied k x \<and> fully_tied k y)"
    proof
      assume "fully_tied k x \<and> fully_tied k y"
      then have "fully_tied y x" by (auto simp: fully_tied_def)
      then have "compare_messages x y \<le> 0" by (rule compare_tied)
      with False show False by simp
    qed
    with False Cons show ?thesis by auto
  qed
qed

lemma filter_array_sort_tied:
  "filter (fully_tied k) (array_sort compare_messages xs) = filter (fully_tied k) xs"
  by (induction xs) (simp_all add: filter_insert_by_tied)

text \<open>
  C6. The list handed to \<open>setAllMessages\<close> is a rearrangement of the fetched messages in which,
  for all positions \<open>i < j\<close>, the message at \<open>i\<close> has more reactions than the message at \<open>j\<close>, or as
  many and a \<open>created_at\<close> that is not earlier; messages tied on both keep the order in which
  they were fetched. The list \<open>allMessages\<close> starts empty and is only ever replaced by such a
  list, so it is ordered this way after every \<open>fetchMessages\<close>.
\<close>

theorem allMessages_ranked:
  "(\<forall>i j. i < j \<and> j < length (sortedMessages xs) \<longrightarrow>
      reaction_count_or_0 (sortedMessages xs ! j) < reaction_count_or_0 (sortedMessages xs ! i) \<or>
      (reaction_count_or_0 (sortedMessages xs ! i) = reaction_count_or_0 (sortedMessages xs ! j) \<and>
       created_at (sortedMessages xs ! j) \<le> created_at (sortedMessages xs ! i))) \<and>
   mset (sortedMessages xs) = mset xs \<and>
   (\<forall>k. filter (fully_tied k) (sortedMessages xs) = filter (fully_tied k) xs) \<and>
   (sorted_wrt ranks_before (allMessages s) \<longrightarrow>
      sorted_wrt ranks_before (allMessages (fst (fetchMessages net s)))) \<and>
   (\<forall>d ys. fetch_filtered net = Inr d \<and> fetch_all net = Inr (Some ys) \<longrightarrow>
      allMessages (fst (fetchMessages net s)) = ys \<and> sorted_wrt ranks_before ys)"
proof -
  have r: "sorted_wrt ranks_before (sortedMessages xs)" for xs
    unfolding sortedMessages_def by (rule sorted_array_sort)
  have a: "\<forall>i j. i < j \<and> j < length (sortedMessages xs) \<longrightarrow>
      reaction_count_or_0 (sortedMessages xs ! j) < reaction_count_or_0 (sortedMessages xs ! i) \<or>
      (reaction_count_or_0 (sortedMessages xs ! i) = reaction_count_or_0 (sortedMessages xs ! j) \<and>
       created_at (sortedMessages xs ! j) \<le> created_at (sortedMessages xs ! i))"
    using r [of xs] by (simp add: sorted_wrt_iff_nth_less ranks_before_def)
  have b: "mset (sortedMessages xs) = mset xs"
    unfolding sortedMessages_def by (rule mset_array_sort)
  have c: "\<forall>k. filter (fully_tied k) (sortedMessages xs) = filter (fully_tied k) xs"
    unfolding sortedMessages_def by (simp add: filter_array_sort_tied)
  have all: "fetch_all net = Inr (Some ys) \<Longrightarrow> sorted_wrt ranks_before ys" for ys
    by (auto simp: fetch_all_def r split: promise.splits if_splits sum.splits)
  have d: "sorted_wrt ranks_before (allMessages s) \<longrightarrow>
      sorted_wrt ranks_before (allMessages (fst (fetchMessages net s)))"
    using all by (auto simp: fetchMessages_def split: sum.splits option.splits)
  have e: "\<forall>d ys. fetch_filtered net = Inr d \<and> fetch_all net = Inr (Some ys) \<longrightarrow>
      allMessages (fst (fetchMessages net s)) = ys \<and> sorted_wrt ranks_before ys"
    using all by (auto simp: fetchMessages_def)
  from a b c d e show ?thesis by blast
qed

theorem allMessages_ranked_witness:
  "allMessages (fst (fetchMessages online_network initial_dashboard)) =
     [example_message ''bbbbb'' 5 1, example_message ''dd'' 2 20,
      example_message ''aa'' 2 10, example_message ''cc'' 2 10] \<and>
   filter (fully_tied (example_message ''aa'' 2 10))
          (allMessages (fst (fetchMessages online_network initial_dashboard))) =
     [example_message ''aa'' 2 10, example_message ''cc'' 2 10] \<and>
   sorted_wrt ranks_before (allMessages (fst (fetchMessages online_network initial_dashboard)))"
proof -
  let ?counted = "[example_message ''aa'' 2 10, example_message ''bbbbb'' 5 1,
                   example_message ''cc'' 2 10, example_message ''dd'' 2 20]"
  let ?ranked = "[example_message ''bbbbb'' 5 1, example_message ''dd'' 2 20,
                  example_message ''aa'' 2 10, example_message ''cc'' 2 10]"
  have f: "fetch_filtered online_network = Inr fetched_feed"
    by (simp add: fetch_filtered_def online_network_def ok_response_def)
  have p: "promise_all (map (with_reaction_count online_network) fetched_feed) = Inr ?counted"
    by (simp add: with_reaction_count_def online_network_def ok_response_def fetched_feed_def
        example_message_def js_def)
  have s: "sortedMessages ?counted = ?ranked"
    by (simp add: sortedMessages_def compare_messages_def reaction_count_or_0_def
        example_message_def Let_def)
  have a: "fetch_all online_network = Inr (Some (sortedMessages ?counted))"
    using p by (simp add: fetch_all_def online_network_def ok_response_def)
  note t = allMessages_ranked [of ?counted initial_dashboard online_network]
  from t f a have 1: "allMessages (fst (fetchMessages online_network initial_dashboard)) = sortedMessages ?counted"
    and 2: "sorted_wrt ranks_before (sortedMessages ?counted)" by blast+
  from t have 3: "filter (fully_tied (example_message ''aa'' 2 10)) (sortedMessages ?counted)
      = filter (fully_tied (example_message ''aa'' 2 10)) ?counted" by blast
  have 4: "filter (fully_tied (example_message ''aa'' 2 10)) ?counted
      = [example_message ''aa'' 2 10, example_message ''cc'' 2 10]"
    by (simp add: fully_tied_def reaction_count_or_0_def example_message_def)
  from 1 2 3 4 show ?thesis unfolding s by simp
qed

subsection \<open>Failing requests\<close>










end
